theory Spec2Isabelle
  imports Main
begin

section \<open>Data model\<close>

text \<open>
  The rows of the Resource Store, as the server actions and \<^verbatim>\<open>types/database.ts\<close> use them.
  Identifiers are strings in the source; strings are lists of code units. Each table is a
  list of rows in the order of their creation.
\<close>

datatype app_role = Admin | ProjectLead | Developer

record profile =
  pr_id :: string
  pr_full_name :: string
  pr_email :: string

record project =
  p_id :: string
  p_name :: string
  p_description :: string
  p_deadline :: string
  p_status :: string
  p_created_by :: string
  p_lead_id :: "string option"

record project_member =
  pm_project_id :: string
  pm_user_id :: string

record document =
  d_id :: string
  d_project_id :: string
  d_title :: string
  d_current_version :: nat
  d_created_by :: string

record document_version =
  v_document_id :: string
  v_version :: nat
  v_storage_path :: string
  v_file_name :: string
  v_file_size :: nat
  v_mime_type :: string
  v_uploaded_by :: string

text \<open>A \<^verbatim>\<open>File\<close> taken from the form data: name, size in bytes and MIME type.\<close>

record form_file =
  f_name :: string
  f_size :: nat
  f_type :: string

text \<open>
  Every mutating call a server action issues to the Resource Store, the Blob Store or the
  account service is recorded, in order, whether or not the store carries it out.
\<close>

datatype store_call =
    DocumentsInsert string string string
  | DocumentsDelete string
  | VersionsInsert document_version
  | RpcCreateDocumentVersion document_version
  | StorageUpload string form_file
  | ProjectsInsert string
  | ProjectsUpdate string
  | ProjectsDelete string
  | AuthCreateUser string
  | UserRolesInsert string app_role
  | UserRolesUpsert string app_role
  | UserRolesDelete string

record world =
  auth_users :: "string list"
  user_roles :: "(string \<times> app_role) list"
  profiles :: "profile list"
  projects :: "project list"
  project_members :: "project_member list"
  documents :: "document list"
  document_versions :: "document_version list"
  storage :: "string \<rightharpoonup> form_file"
  issued :: "store_call list"

definition issue :: "store_call \<Rightarrow> world \<Rightarrow> world" where
  "issue c w = w\<lparr>issued := issued w @ [c]\<rparr>"

section \<open>Store operations used by the document actions\<close>

text \<open>
  \<^verbatim>\<open>supabase.from('documents').insert({...}).select().single()\<close>: the store either
  reports an error or returns the new row under a generated id (\<open>res\<close>); an id that is
  already taken violates the primary key.
\<close>

definition documents_insert ::
  "string + string \<Rightarrow> string \<Rightarrow> string \<Rightarrow> string \<Rightarrow> world \<Rightarrow> (string + document) \<times> world" where
  "documents_insert res projectId title uid w =
     (let w1 = issue (DocumentsInsert projectId title uid) w in
      case res of
        Inl e \<Rightarrow> (Inl e, w1)
      | Inr newId \<Rightarrow>
          if newId \<in> set (map d_id (documents w1))
          then (Inl ''duplicate key value violates unique constraint'', w1)
          else
            let doc = \<lparr>d_id = newId, d_project_id = projectId, d_title = title,
                       d_current_version = 1, d_created_by = uid\<rparr>
            in (Inr doc, w1\<lparr>documents := documents w1 @ [doc]\<rparr>))"

text \<open>
  \<^verbatim>\<open>supabase.from('documents').delete().eq('id', id)\<close>; the source comments that the
  delete cascades to the version rows. Where the source does not look at the result of
  a call, the call is taken to be carried out.
\<close>

definition documents_delete :: "string \<Rightarrow> world \<Rightarrow> world" where
  "documents_delete docId w =
     (let w1 = issue (DocumentsDelete docId) w in
      w1\<lparr>documents := filter (\<lambda>d. d_id d \<noteq> docId) (documents w1),
         document_versions := filter (\<lambda>v. v_document_id v \<noteq> docId) (document_versions w1)\<rparr>)"

text \<open>
  \<^verbatim>\<open>supabase.storage.from('documents').upload(path, file, {upsert: false})\<close>: fails when
  the store reports an error, and also when the path is already occupied.
\<close>

definition storage_upload :: "string \<Rightarrow> form_file \<Rightarrow> string option \<Rightarrow> world \<Rightarrow> string option \<times> world" where
  "storage_upload path f uploadError w =
     (let w1 = issue (StorageUpload path f) w in
      case uploadError of
        Some e \<Rightarrow> (Some e, w1)
      | None \<Rightarrow>
          if path \<in> dom (storage w1) then (Some ''The resource already exists'', w1)
          else (None, w1\<lparr>storage := (storage w1)(path \<mapsto> f)\<rparr>))"

definition document_versions_insert ::
  "document_version \<Rightarrow> string option \<Rightarrow> world \<Rightarrow> string option \<times> world" where
  "document_versions_insert row versionError w =
     (let w1 = issue (VersionsInsert row) w in
      case versionError of
        Some e \<Rightarrow> (Some e, w1)
      | None \<Rightarrow> (None, w1\<lparr>document_versions := document_versions w1 @ [row]\<rparr>))"

definition mime_or_default :: "string \<Rightarrow> string" where
  "mime_or_default t = (if t = [] then ''application/octet-stream'' else t)"

section \<open>uploadDocument\<close>

definition uploadDocument ::
  "string \<Rightarrow> string \<Rightarrow> form_file option \<Rightarrow> string option \<Rightarrow> string + string \<Rightarrow> string option \<Rightarrow>
   string option \<Rightarrow> world \<Rightarrow> (string + string) \<times> world" where
  "uploadDocument projectId title formFile user docRes uploadError versionError w =
     (case user of
        None \<Rightarrow> (Inl ''Unauthorized'', w)
      | Some uid \<Rightarrow>
         (case formFile of
            None \<Rightarrow> (Inl ''Please select a file to upload'', w)
          | Some f \<Rightarrow>
              if f_size f = 0 then (Inl ''Please select a file to upload'', w)
              else if length title < 2
              then (Inl ''Document title must be at least 2 characters'', w)
              else if f_size f > 52428800 then (Inl ''File size must be less than 50MB'', w)
              else
               (case documents_insert docRes projectId title uid w of
                  (Inl e, w1) \<Rightarrow> (Inl e, w1)
                | (Inr doc, w1) \<Rightarrow>
                    let storagePath = projectId @ ''/'' @ d_id doc @ ''/v1-'' @ f_name f in
                    (case storage_upload storagePath f uploadError w1 of
                       (Some e, w2) \<Rightarrow>
                         (Inl (''Upload failed: '' @ e), documents_delete (d_id doc) w2)
                     | (None, w2) \<Rightarrow>
                        (case document_versions_insert
                                \<lparr>v_document_id = d_id doc, v_version = 1,
                                 v_storage_path = storagePath, v_file_name = f_name f,
                                 v_file_size = f_size f,
                                 v_mime_type = mime_or_default (f_type f),
                                 v_uploaded_by = uid\<rparr> versionError w2 of
                           (Some e, w3) \<Rightarrow> (Inl (''Version record failed: '' @ e), w3)
                         | (None, w3) \<Rightarrow> (Inr (d_id doc), w3))))))"



section \<open>uploadNewVersion\<close>

text \<open>Decimal digits of a number, as a template literal prints it.\<close>

definition digit_char :: "nat \<Rightarrow> char" where
  "digit_char n = ''0123456789'' ! n"

function show_nat :: "nat \<Rightarrow> string" where
  "show_nat n = (if n < 10 then [digit_char n] else show_nat (n div 10) @ [digit_char (n mod 10)])"
  by pat_completeness auto
termination
  by (relation "measure id") auto

declare show_nat.simps [simp del]

text \<open>
  \<^verbatim>\<open>supabase.from('documents').select('*, project_id').eq('id', documentId).single()\<close>:
  the source treats an error and a missing row alike; \<^verbatim>\<open>single()\<close> fails unless exactly
  one row matches.
\<close>

definition documents_single :: "string \<Rightarrow> string option \<Rightarrow> world \<Rightarrow> document option" where
  "documents_single documentId docError w =
     (case docError of
        Some e \<Rightarrow> None
      | None \<Rightarrow>
         (case filter (\<lambda>d. d_id d = documentId) (documents w) of
            [d] \<Rightarrow> Some d
          | _ \<Rightarrow> None))"

text \<open>
  Modelled from the spec: the body of the database function
  \<^verbatim>\<open>create_document_version\<close> is not among the sources. As one atomic step it inserts the
  version row and sets the document's current version to the version passed in; when it
  fails, neither happens.
\<close>

definition create_document_version ::
  "document_version \<Rightarrow> string option \<Rightarrow> world \<Rightarrow> string option \<times> world" where
  "create_document_version args versionError w =
     (let w1 = issue (RpcCreateDocumentVersion args) w in
      case versionError of
        Some e \<Rightarrow> (Some e, w1)
      | None \<Rightarrow>
          (None,
           w1\<lparr>document_versions := document_versions w1 @ [args],
              documents :=
                map (\<lambda>d. if d_id d = v_document_id args
                         then d\<lparr>d_current_version := v_version args\<rparr> else d)
                    (documents w1)\<rparr>))"

definition uploadNewVersion ::
  "string \<Rightarrow> form_file option \<Rightarrow> string option \<Rightarrow> string option \<Rightarrow> string option \<Rightarrow>
   string option \<Rightarrow> world \<Rightarrow> (string + unit) \<times> world" where
  "uploadNewVersion documentId formFile user docError uploadError versionError w =
     (case user of
        None \<Rightarrow> (Inl ''Unauthorized'', w)
      | Some uid \<Rightarrow>
         (case formFile of
            None \<Rightarrow> (Inl ''Please select a file to upload'', w)
          | Some f \<Rightarrow>
              if f_size f = 0 then (Inl ''Please select a file to upload'', w)
              else if f_size f > 52428800 then (Inl ''File size must be less than 50MB'', w)
              else
               (case documents_single documentId docError w of
                  None \<Rightarrow> (Inl ''Document not found'', w)
                | Some doc \<Rightarrow>
                    let newVersion = d_current_version doc + 1;
                        storagePath = d_project_id doc @ ''/'' @ documentId @ ''/v''
                                        @ show_nat newVersion @ ''-'' @ f_name f
                    in
                    (case storage_upload storagePath f uploadError w of
                       (Some e, w1) \<Rightarrow> (Inl (''Upload failed: '' @ e), w1)
                     | (None, w1) \<Rightarrow>
                        (case create_document_version
                                \<lparr>v_document_id = documentId, v_version = newVersion,
                                 v_storage_path = storagePath, v_file_name = f_name f,
                                 v_file_size = f_size f,
                                 v_mime_type = mime_or_default (f_type f),
                                 v_uploaded_by = uid\<rparr> versionError w1 of
                           (Some e, w2) \<Rightarrow> (Inl (''Version creation failed: '' @ e), w2)
                         | (None, w2) \<Rightarrow> (Inr (), w2))))))"

text \<open>
  The storage path convention in the words of the specification:
  \<^verbatim>\<open>{projectId}/{documentId}/v{version}-{originalFileName}\<close>.
\<close>

definition spec_storage_path :: "string \<Rightarrow> string \<Rightarrow> nat \<Rightarrow> string \<Rightarrow> string" where
  "spec_storage_path projectId documentId version fileName =
     projectId @ ''/'' @ documentId @ ''/v'' @ show_nat version @ ''-'' @ fileName"

section \<open>getDocumentDownloadUrl\<close>




section \<open>The authorization model\<close>

text \<open>
  The permission predicate of \<^verbatim>\<open>formal-methods/authorization-model.tla\<close>, read over the
  tables of the store. The role of a user is what
  \<^verbatim>\<open>from('user_roles').select('role').eq('user_id', id).single()\<close> yields: the role of the
  user's only row, and nothing when there is no row or more than one.
\<close>

datatype action = Create | Read | Update | Delete

datatype resource = Projects | ProjectMembers | Documents | DocumentVersions | Users

record ctx =
  c_project_id :: string
  c_document_id :: string

definition RoleOf :: "world \<Rightarrow> string \<Rightarrow> app_role option" where
  "RoleOf w u =
     (case filter (\<lambda>r. fst r = u) (user_roles w) of
        [r] \<Rightarrow> Some (snd r)
      | _ \<Rightarrow> None)"

definition IsAdmin :: "world \<Rightarrow> string \<Rightarrow> bool" where
  "IsAdmin w u = (RoleOf w u = Some Admin)"

definition IsProjectLead :: "world \<Rightarrow> string \<Rightarrow> bool" where
  "IsProjectLead w u = (RoleOf w u = Some ProjectLead)"

definition IsDeveloper :: "world \<Rightarrow> string \<Rightarrow> bool" where
  "IsDeveloper w u = (RoleOf w u = Some Developer)"

definition HasNoRole :: "world \<Rightarrow> string \<Rightarrow> bool" where
  "HasNoRole w u = (RoleOf w u = None)"

definition ProjectIdsLedBy :: "world \<Rightarrow> string \<Rightarrow> string list" where
  "ProjectIdsLedBy w u = map p_id (filter (\<lambda>p. p_lead_id p = Some u) (projects w))"

definition ProjectIdsMemberOf :: "world \<Rightarrow> string \<Rightarrow> string list" where
  "ProjectIdsMemberOf w u =
     map pm_project_id (filter (\<lambda>m. pm_user_id m = u) (project_members w))"

definition IsLeadOf :: "world \<Rightarrow> string \<Rightarrow> string \<Rightarrow> bool" where
  "IsLeadOf w u pid = list_ex (\<lambda>p. p_id p = pid \<and> p_lead_id p = Some u) (projects w)"

definition IsMemberOf :: "world \<Rightarrow> string \<Rightarrow> string \<Rightarrow> bool" where
  "IsMemberOf w u pid =
     list_ex (\<lambda>m. pm_project_id m = pid \<and> pm_user_id m = u) (project_members w)"

definition DocIdsInLeadProjects :: "world \<Rightarrow> string \<Rightarrow> string list" where
  "DocIdsInLeadProjects w u =
     map d_id (filter (\<lambda>d. d_project_id d \<in> set (ProjectIdsLedBy w u)) (documents w))"

definition DocIdsInMemberProjects :: "world \<Rightarrow> string \<Rightarrow> string list" where
  "DocIdsInMemberProjects w u =
     map d_id (filter (\<lambda>d. d_project_id d \<in> set (ProjectIdsMemberOf w u)) (documents w))"

definition HasPermission :: "world \<Rightarrow> string \<Rightarrow> action \<Rightarrow> resource \<Rightarrow> ctx \<Rightarrow> bool" where
  "HasPermission w u a r c =
     (IsAdmin w u
      \<or> (IsProjectLead w u \<and> r = Projects
          \<and> ((a = Read \<and> (IsLeadOf w u (c_project_id c) \<or> IsMemberOf w u (c_project_id c)))
             \<or> (a = Update \<and> IsLeadOf w u (c_project_id c))))
      \<or> (IsProjectLead w u \<and> r = ProjectMembers \<and> IsLeadOf w u (c_project_id c))
      \<or> (IsProjectLead w u \<and> r = Documents \<and> IsLeadOf w u (c_project_id c))
      \<or> (IsProjectLead w u \<and> r = DocumentVersions
          \<and> c_document_id c \<in> set (DocIdsInLeadProjects w u))
      \<or> (IsDeveloper w u \<and> r = Projects \<and> a = Read \<and> IsMemberOf w u (c_project_id c))
      \<or> (IsDeveloper w u \<and> r = ProjectMembers \<and> a = Read
          \<and> IsMemberOf w u (c_project_id c))
      \<or> (IsDeveloper w u \<and> r = Documents \<and> a = Read \<and> IsMemberOf w u (c_project_id c))
      \<or> (IsDeveloper w u \<and> r = DocumentVersions \<and> a = Read
          \<and> c_document_id c \<in> set (DocIdsInMemberProjects w u)))"

datatype decision = Allow | Deny

definition Decide :: "world \<Rightarrow> string \<Rightarrow> action \<Rightarrow> resource \<Rightarrow> ctx \<Rightarrow> decision" where
  "Decide w u a r c = (if HasPermission w u a r c then Allow else Deny)"

section \<open>Input validation\<close>

text \<open>
  The schemas of \<^verbatim>\<open>lib/validations.ts\<close>. The format checks of the validation library and
  the clock-dependent date handling are parameters: \<open>is_email\<close> and \<open>is_uuid\<close> are its
  \<^verbatim>\<open>email()\<close> and \<^verbatim>\<open>uuid()\<close>, \<open>is_future_date\<close> is the refinement on the deadline, and
  \<open>to_iso\<close> is \<^verbatim>\<open>new Date(s).toISOString()\<close>, which throws on an invalid date; the
  actions below return the exception as their error.
\<close>

record checks =
  is_email :: "string \<Rightarrow> bool"
  is_uuid :: "string \<Rightarrow> bool"
  is_future_date :: "string \<Rightarrow> bool"
  to_iso :: "string \<Rightarrow> string option"

definition role_of_string :: "string \<Rightarrow> app_role option" where
  "role_of_string s =
     (if s = ''admin'' then Some Admin
      else if s = ''project_lead'' then Some ProjectLead
      else if s = ''developer'' then Some Developer
      else None)"

definition is_lower :: "char \<Rightarrow> bool" where
  "is_lower c = (c \<in> set ''abcdefghijklmnopqrstuvwxyz'')"

definition is_upper :: "char \<Rightarrow> bool" where
  "is_upper c = (c \<in> set ''ABCDEFGHIJKLMNOPQRSTUVWXYZ'')"

definition is_digit :: "char \<Rightarrow> bool" where
  "is_digit c = (c \<in> set ''0123456789'')"

record user_form =
  uf_email :: string
  uf_password :: string
  uf_full_name :: string
  uf_role :: string

record parsed_user =
  pu_email :: string
  pu_password :: string
  pu_full_name :: string
  pu_role :: app_role

text \<open>\<^verbatim>\<open>createUserSchema.safeParse\<close>, reduced to the first message or the parsed data.\<close>

definition createUserSchema :: "checks \<Rightarrow> user_form \<Rightarrow> string + parsed_user" where
  "createUserSchema z form =
     (if \<not> is_email z (uf_email form) then Inl ''Please enter a valid email address''
      else if length (uf_password form) < 8 then Inl ''Password must be at least 8 characters''
      else if \<not> list_ex is_lower (uf_password form)
      then Inl ''Password must contain a lowercase letter''
      else if \<not> list_ex is_upper (uf_password form)
      then Inl ''Password must contain an uppercase letter''
      else if \<not> list_ex is_digit (uf_password form) then Inl ''Password must contain a number''
      else if \<not> list_ex (\<lambda>c. \<not> is_lower c \<and> \<not> is_upper c \<and> \<not> is_digit c) (uf_password form)
      then Inl ''Password must contain a special character''
      else if length (uf_full_name form) < 2 then Inl ''Name must be at least 2 characters''
      else
       (case role_of_string (uf_role form) of
          None \<Rightarrow> Inl ''Invalid enum value''
        | Some r \<Rightarrow>
            Inr \<lparr>pu_email = uf_email form, pu_password = uf_password form,
                 pu_full_name = uf_full_name form, pu_role = r\<rparr>))"

record role_form =
  rf_user_id :: string
  rf_role :: string

definition updateUserRoleSchema :: "checks \<Rightarrow> role_form \<Rightarrow> string + string \<times> app_role" where
  "updateUserRoleSchema z form =
     (if \<not> is_uuid z (rf_user_id form) then Inl ''Invalid uuid''
      else
       (case role_of_string (rf_role form) of
          None \<Rightarrow> Inl ''Invalid enum value''
        | Some r \<Rightarrow> Inr (rf_user_id form, r)))"



text \<open>\<^verbatim>\<open>x || null\<close> on an optional string: absent and empty both give null.\<close>

definition or_null :: "string option \<Rightarrow> string option" where
  "or_null x = (case x of None \<Rightarrow> None | Some s \<Rightarrow> if s = [] then None else Some s)"

section \<open>Project actions\<close>











text \<open>The tables and the blob store, without the record of issued calls.\<close>

definition stored :: "world \<Rightarrow> world" where
  "stored w = w\<lparr>issued := []\<rparr>"

subsection \<open>Reading projects\<close>

record project_view =
  pv_project :: project
  pv_project_members :: "string list"
  pv_lead :: "profile option"
  pv_member_count :: nat

definition members_of :: "world \<Rightarrow> string \<Rightarrow> string list" where
  "members_of w pid = map pm_user_id (filter (\<lambda>m. pm_project_id m = pid) (project_members w))"

definition profile_by_id :: "world \<Rightarrow> string \<Rightarrow> profile option" where
  "profile_by_id w i = find (\<lambda>pr. pr_id pr = i) (profiles w)"

text \<open>
  \<^verbatim>\<open>roleData?.role || 'developer'\<close>: a caller for whom no single role row is found is
  handled as a developer.
\<close>

definition userRole :: "world \<Rightarrow> string \<Rightarrow> app_role" where
  "userRole w uid = (case RoleOf w uid of None \<Rightarrow> Developer | Some r \<Rightarrow> r)"

text \<open>
  getProjects reads all projects through the admin client, newest first, and filters them
  in the action itself.
\<close>

definition getProjects :: "string option \<Rightarrow> string option \<Rightarrow> world \<Rightarrow> string + project_view list" where
  "getProjects user selectError w =
     (case user of
        None \<Rightarrow> Inl ''Unauthorized''
      | Some uid \<Rightarrow>
         (case selectError of
            Some e \<Rightarrow> Inl e
          | None \<Rightarrow>
              let data = rev (projects w);
                  filteredProjects =
                    (if userRole w uid \<noteq> Admin
                     then filter (\<lambda>p. p_lead_id p = Some uid
                                       \<or> list_ex (\<lambda>m. m = uid) (members_of w (p_id p))) data
                     else data)
              in Inr (map (\<lambda>p. \<lparr>pv_project = p,
                                 pv_project_members = members_of w (p_id p),
                                 pv_lead = (case or_null (p_lead_id p) of
                                              None \<Rightarrow> None
                                            | Some l \<Rightarrow> profile_by_id w l),
                                 pv_member_count = length (members_of w (p_id p))\<rparr>)
                         filteredProjects)))"

record member_view =
  mv_user_id :: string
  mv_profile :: "profile option"

record project_detail =
  pd_project :: project
  pd_lead :: "profile option"
  pd_project_members :: "member_view list"

definition getProject :: "string \<Rightarrow> string option \<Rightarrow> string option \<Rightarrow> world \<Rightarrow> string + project_detail" where
  "getProject projectId user selectError w =
     (case user of
        None \<Rightarrow> Inl ''Unauthorized''
      | Some uid \<Rightarrow>
         (case selectError of
            Some e \<Rightarrow> Inl e
          | None \<Rightarrow>
             (case filter (\<lambda>p. p_id p = projectId) (projects w) of
                [p] \<Rightarrow>
                  let projectWithLead =
                        \<lparr>pd_project = p,
                         pd_lead = (case or_null (p_lead_id p) of
                                      None \<Rightarrow> None
                                    | Some l \<Rightarrow> profile_by_id w l),
                         pd_project_members =
                           map (\<lambda>m. \<lparr>mv_user_id = m, mv_profile = profile_by_id w m\<rparr>)
                               (members_of w (p_id p))\<rparr>
                  in
                  if userRole w uid = Admin then Inr projectWithLead
                  else if p_lead_id p = Some uid then Inr projectWithLead
                  else if list_ex (\<lambda>m. m = uid) (members_of w (p_id p))
                  then Inr projectWithLead
                  else Inl ''Access denied - you are not a member of this project''
              | _ \<Rightarrow> Inl ''Project not found'')))"

section \<open>User actions\<close>

text \<open>
  \<^verbatim>\<open>adminClient.auth.admin.createUser\<close>: the account service reports an error, returns no
  user, or creates the account under a new id.
\<close>

definition auth_admin_createUser ::
  "string \<Rightarrow> string + string option \<Rightarrow> world \<Rightarrow> (string + string option) \<times> world" where
  "auth_admin_createUser email createRes w =
     (let w1 = issue (AuthCreateUser email) w in
      case createRes of
        Inl e \<Rightarrow> (Inl e, w1)
      | Inr None \<Rightarrow> (Inr None, w1)
      | Inr (Some newId) \<Rightarrow>
          if newId \<in> set (auth_users w1)
          then (Inl ''A user with this id has already been registered'', w1)
          else (Inr (Some newId), w1\<lparr>auth_users := auth_users w1 @ [newId]\<rparr>))"

text \<open>
  Modelled from the spec: the declaration of table \<^verbatim>\<open>user_roles\<close> is not among the sources.
  Roles are a separate one-to-many association of users, and the unique key of the table is
  the pair (user_id, role), the conflict target that the source names in its upsert. The
  calls below go through the admin client, which no row-level policy restricts.
\<close>

definition user_roles_insert ::
  "string \<Rightarrow> app_role \<Rightarrow> string option \<Rightarrow> world \<Rightarrow> string option \<times> world" where
  "user_roles_insert uid r roleError w =
     (let w1 = issue (UserRolesInsert uid r) w in
      case roleError of
        Some e \<Rightarrow> (Some e, w1)
      | None \<Rightarrow>
          if (uid, r) \<in> set (user_roles w1)
          then (Some ''duplicate key value violates unique constraint'', w1)
          else (None, w1\<lparr>user_roles := user_roles w1 @ [(uid, r)]\<rparr>))"

text \<open>
  \<^verbatim>\<open>upsert({user_id, role}, {onConflict: 'user_id,role'})\<close>: a row with the same pair is
  updated in place, which leaves it as it is; otherwise the row is inserted.
\<close>

definition user_roles_upsert ::
  "string \<Rightarrow> app_role \<Rightarrow> string option \<Rightarrow> world \<Rightarrow> string option \<times> world" where
  "user_roles_upsert uid r upsertError w =
     (let w1 = issue (UserRolesUpsert uid r) w in
      case upsertError of
        Some e \<Rightarrow> (Some e, w1)
      | None \<Rightarrow>
          if (uid, r) \<in> set (user_roles w1) then (None, w1)
          else (None, w1\<lparr>user_roles := user_roles w1 @ [(uid, r)]\<rparr>))"

definition user_roles_delete :: "string \<Rightarrow> string option \<Rightarrow> world \<Rightarrow> string option \<times> world" where
  "user_roles_delete uid deleteError w =
     (let w1 = issue (UserRolesDelete uid) w in
      case deleteError of
        Some e \<Rightarrow> (Some e, w1)
      | None \<Rightarrow> (None, w1\<lparr>user_roles := filter (\<lambda>row. fst row \<noteq> uid) (user_roles w1)\<rparr>))"

definition createUser ::
  "checks \<Rightarrow> user_form \<Rightarrow> string option \<Rightarrow> string + string option \<Rightarrow> string option \<Rightarrow> world \<Rightarrow>
   (string + string) \<times> world" where
  "createUser z formData user createRes roleError w =
     (case createUserSchema z formData of
        Inl e \<Rightarrow> (Inl e, w)
      | Inr parsed \<Rightarrow>
         (case user of
            None \<Rightarrow> (Inl ''Unauthorized'', w)
          | Some uid \<Rightarrow>
              if RoleOf w uid \<noteq> Some Admin then (Inl ''Only admins can create users'', w)
              else
               (case auth_admin_createUser (pu_email parsed) createRes w of
                  (Inl e, w1) \<Rightarrow> (Inl e, w1)
                | (Inr None, w1) \<Rightarrow> (Inl ''Failed to create user'', w1)
                | (Inr (Some newId), w1) \<Rightarrow>
                   (case user_roles_insert newId (pu_role parsed) roleError w1 of
                      (Some e, w2) \<Rightarrow>
                        (Inl (''User created but failed to assign role: '' @ e), w2)
                    | (None, w2) \<Rightarrow> (Inr newId, w2)))))"

definition updateUserRole ::
  "checks \<Rightarrow> role_form \<Rightarrow> string option \<Rightarrow> string option \<Rightarrow> string option \<Rightarrow> string option \<Rightarrow>
   world \<Rightarrow> (string + unit) \<times> world" where
  "updateUserRole z formData user upsertError deleteError insertError w =
     (case updateUserRoleSchema z formData of
        Inl e \<Rightarrow> (Inl e, w)
      | Inr (target, newRole) \<Rightarrow>
         (case user of
            None \<Rightarrow> (Inl ''Unauthorized'', w)
          | Some uid \<Rightarrow>
              if RoleOf w uid \<noteq> Some Admin then (Inl ''Only admins can update roles'', w)
              else
               (case user_roles_upsert target newRole upsertError w of
                  (None, w1) \<Rightarrow> (Inr (), w1)
                | (Some e, w1) \<Rightarrow>
                   (case user_roles_delete target deleteError w1 of
                      (Some e1, w2) \<Rightarrow> (Inl e1, w2)
                    | (None, w2) \<Rightarrow>
                       (case user_roles_insert target newRole insertError w2 of
                          (Some e2, w3) \<Rightarrow> (Inl e2, w3)
                        | (None, w3) \<Rightarrow> (Inr (), w3))))))"

text \<open>The role rows a user has.\<close>

definition roles_of :: "world \<Rightarrow> string \<Rightarrow> app_role list" where
  "roles_of w uid = map snd (filter (\<lambda>row. fst row = uid) (user_roles w))"

section \<open>A sample state\<close>

text \<open>
  One project led by \<open>lead1\<close>, with one document at version 1. \<open>dev1\<close> is a developer
  who is not a member of the project, \<open>dev2\<close> a developer who is; \<open>guest1\<close> is a member
  of it and has no role row.
\<close>

definition all_pass :: checks where
  "all_pass = \<lparr>is_email = (\<lambda>s. True), is_uuid = (\<lambda>s. True), is_future_date = (\<lambda>s. True),
               to_iso = (\<lambda>s. Some s)\<rparr>"

definition design_pdf :: form_file where
  "design_pdf = \<lparr>f_name = ''design.pdf'', f_size = 2048, f_type = ''application/pdf''\<rparr>"

definition racers :: project where
  "racers = \<lparr>p_id = ''p1'', p_name = ''Pixel Racers'', p_description = ''A racing game'',
             p_deadline = ''2030-01-01T00:00:00.000Z'', p_status = ''active'',
             p_created_by = ''admin1'', p_lead_id = Some ''lead1''\<rparr>"

definition design_v2 :: form_file where
  "design_v2 = \<lparr>f_name = ''design.pdf'', f_size = 4096, f_type = ''application/pdf''\<rparr>"


definition design_doc :: document where
  "design_doc = \<lparr>d_id = ''d1'', d_project_id = ''p1'', d_title = ''Design'',
                 d_current_version = 1, d_created_by = ''lead1''\<rparr>"

definition nora :: user_form where
  "nora = \<lparr>uf_email = ''nora@pixelforge.dev'', uf_password = ''Nora@2024!Secure'',
           uf_full_name = ''Nora New'', uf_role = ''developer''\<rparr>"

definition sample :: world where
  "sample =
     \<lparr>auth_users = [''admin1'', ''lead1'', ''dev1'', ''dev2'', ''guest1''],
      user_roles = [(''admin1'', Admin), (''lead1'', ProjectLead), (''dev1'', Developer),
                    (''dev2'', Developer)],
      profiles = [\<lparr>pr_id = ''lead1'', pr_full_name = ''Lisa Lead'',
                   pr_email = ''lead@pixelforge.dev''\<rparr>],
      projects = [racers],
      project_members = [\<lparr>pm_project_id = ''p1'', pm_user_id = ''guest1''\<rparr>,
                         \<lparr>pm_project_id = ''p1'', pm_user_id = ''dev2''\<rparr>],
      documents = [design_doc],
      document_versions =
        [\<lparr>v_document_id = ''d1'', v_version = 1, v_storage_path = ''p1/d1/v1-design.pdf'',
          v_file_name = ''design.pdf'', v_file_size = 2048, v_mime_type = ''application/pdf'',
          v_uploaded_by = ''lead1''\<rparr>],
      storage = [''p1/d1/v1-design.pdf'' \<mapsto> design_pdf],
      issued = []\<rparr>"

section \<open>Facts about the permission predicate\<close>

lemma NoRoleNoAccess: "HasNoRole w u \<Longrightarrow> \<not> HasPermission w u a r c"
  by (simp add: HasPermission_def HasNoRole_def IsAdmin_def IsProjectLead_def IsDeveloper_def)


lemma RoleOf_guest1: "RoleOf sample ''guest1'' = None"
  by (simp add: RoleOf_def sample_def)



lemma RoleOf_admin1: "RoleOf sample ''admin1'' = Some Admin"
  by (simp add: RoleOf_def sample_def)

lemma stored_issue: "stored (issue c w) = stored w"
  by (simp add: stored_def issue_def)

lemma documents_single_issue:
  "documents_single documentId docError (issue c w) = documents_single documentId docError w"
  by (simp add: documents_single_def issue_def split: option.splits)

section \<open>A caller without a role\<close>

text \<open>
  Claim C1. An authenticated actor with no role row is denied every action, and getProjects
  and getProject return no project data for such an actor. The permission predicate does
  deny every action (\<open>NoRoleNoAccess\<close>), but the two read actions take the missing role
  for the developer role: in the sample state \<open>guest1\<close>, who has no role row and is a member
  of project \<open>p1\<close>, is served the project by both.
\<close>

theorem getProjects_serves_roleless_member:
  "HasNoRole sample ''guest1'' \<and>
   Decide sample ''guest1'' Read Projects \<lparr>c_project_id = ''p1'', c_document_id = []\<rparr> = Deny \<and>
   getProjects (Some ''guest1'') None sample =
     Inr [\<lparr>pv_project = racers, pv_project_members = [''guest1'', ''dev2''],
           pv_lead = Some \<lparr>pr_id = ''lead1'', pr_full_name = ''Lisa Lead'',
                            pr_email = ''lead@pixelforge.dev''\<rparr>,
           pv_member_count = 2\<rparr>] \<and>
   getProject ''p1'' (Some ''guest1'') None sample =
     Inr \<lparr>pd_project = racers,
          pd_lead = Some \<lparr>pr_id = ''lead1'', pr_full_name = ''Lisa Lead'',
                           pr_email = ''lead@pixelforge.dev''\<rparr>,
          pd_project_members = [\<lparr>mv_user_id = ''guest1'', mv_profile = None\<rparr>,
                                \<lparr>mv_user_id = ''dev2'', mv_profile = None\<rparr>]\<rparr>"
proof -
  have r: "HasNoRole sample ''guest1''"
    by (simp add: HasNoRole_def RoleOf_guest1)
  have d: "Decide sample ''guest1'' Read Projects \<lparr>c_project_id = ''p1'', c_document_id = []\<rparr> = Deny"
    using NoRoleNoAccess [OF r] by (simp add: Decide_def)
  have m: "members_of sample ''p1'' = [''guest1'', ''dev2'']"
    by (simp add: members_of_def sample_def)
  have l: "profile_by_id sample ''lead1'' =
             Some \<lparr>pr_id = ''lead1'', pr_full_name = ''Lisa Lead'',
                   pr_email = ''lead@pixelforge.dev''\<rparr>"
    by (simp add: profile_by_id_def sample_def)
  have g: "profile_by_id sample ''guest1'' = None" "profile_by_id sample ''dev2'' = None"
    by (simp_all add: profile_by_id_def sample_def)
  have u: "userRole sample ''guest1'' = Developer"
    by (simp add: userRole_def RoleOf_guest1)
  have ps: "projects sample = [racers]"
    by (simp add: sample_def)
  have pr: "p_id racers = ''p1''" "p_lead_id racers = Some ''lead1''"
    by (simp_all add: racers_def)
  have a: "getProjects (Some ''guest1'') None sample =
     Inr [\<lparr>pv_project = racers, pv_project_members = [''guest1'', ''dev2''],
           pv_lead = Some \<lparr>pr_id = ''lead1'', pr_full_name = ''Lisa Lead'',
                            pr_email = ''lead@pixelforge.dev''\<rparr>,
           pv_member_count = 2\<rparr>]"
    by (simp add: getProjects_def u ps pr m l or_null_def)
  have b: "getProject ''p1'' (Some ''guest1'') None sample =
     Inr \<lparr>pd_project = racers,
          pd_lead = Some \<lparr>pr_id = ''lead1'', pr_full_name = ''Lisa Lead'',
                           pr_email = ''lead@pixelforge.dev''\<rparr>,
          pd_project_members = [\<lparr>mv_user_id = ''guest1'', mv_profile = None\<rparr>,
                                \<lparr>mv_user_id = ''dev2'', mv_profile = None\<rparr>]\<rparr>"
    by (simp add: getProject_def u ps pr m l g or_null_def)
  show ?thesis using r d a b by simp
qed

text \<open>
  The same holds in every state: getProject serves whoever is the lead or a member of the
  project, whatever rows \<open>user_roles\<close> holds for the caller.
\<close>

lemma getProject_serves_lead_or_member:
  assumes "filter (\<lambda>p. p_id p = projectId) (projects w) = [p]"
      and "p_lead_id p = Some uid \<or> list_ex (\<lambda>m. m = uid) (members_of w (p_id p))"
  shows "\<exists>v. getProject projectId (Some uid) None w = Inr v"
  using assms by (auto simp: getProject_def Let_def)

section \<open>Download\<close>



section \<open>Developers and project writes\<close>







section \<open>Changing a user's role\<close>

text \<open>
  Claim C4. A successful updateUserRole leaves the target user with exactly one role row,
  the new role. In the sample state the admin changes \<open>dev1\<close> from developer to admin and
  the upsert succeeds: the action reports success and \<open>dev1\<close> then has two role rows, the
  old one and the new one.
\<close>

theorem updateUserRole_keeps_old_row:
  "roles_of sample ''dev1'' = [Developer] \<and>
   fst (updateUserRole all_pass \<lparr>rf_user_id = ''dev1'', rf_role = ''admin''\<rparr> (Some ''admin1'')
          None None None sample) = Inr () \<and>
   roles_of (snd (updateUserRole all_pass \<lparr>rf_user_id = ''dev1'', rf_role = ''admin''\<rparr>
                    (Some ''admin1'') None None None sample)) ''dev1'' = [Developer, Admin]"
proof -
  have p: "updateUserRoleSchema all_pass \<lparr>rf_user_id = ''dev1'', rf_role = ''admin''\<rparr>
             = Inr (''dev1'', Admin)"
    by (simp add: updateUserRoleSchema_def all_pass_def role_of_string_def)
  have u: "user_roles_upsert ''dev1'' Admin None sample =
             (None, sample\<lparr>user_roles := user_roles sample @ [(''dev1'', Admin)],
                           issued := [UserRolesUpsert ''dev1'' Admin]\<rparr>)"
    by (simp add: user_roles_upsert_def issue_def sample_def)
  have o: "roles_of sample ''dev1'' = [Developer]"
    by (simp add: roles_of_def sample_def)
  show ?thesis
    using o by (simp add: updateUserRole_def p RoleOf_admin1 u roles_of_def)
qed

text \<open>
  In general, when the upsert succeeds the rows the target already had all stay, and the
  new role is added unless it was among them; exactly one row results only on the fallback
  path, which is taken when the upsert reports an error.
\<close>

lemma updateUserRole_upsert:
  assumes parsed: "updateUserRoleSchema z formData = Inr (target, newRole)"
      and admin: "RoleOf w uid = Some Admin"
  shows "fst (updateUserRole z formData (Some uid) None deleteError insertError w) = Inr ()"
    and "roles_of (snd (updateUserRole z formData (Some uid) None deleteError insertError w)) target =
           (if newRole \<in> set (roles_of w target) then roles_of w target
            else roles_of w target @ [newRole])"
proof -
  have m: "newRole \<in> set (roles_of w target) \<longleftrightarrow> (target, newRole) \<in> set (user_roles w)"
    by (force simp: roles_of_def)
  show "fst (updateUserRole z formData (Some uid) None deleteError insertError w) = Inr ()"
    by (simp add: updateUserRole_def parsed admin user_roles_upsert_def Let_def issue_def)
  show "roles_of (snd (updateUserRole z formData (Some uid) None deleteError insertError w)) target =
           (if newRole \<in> set (roles_of w target) then roles_of w target
            else roles_of w target @ [newRole])"
    unfolding m
    by (simp add: updateUserRole_def parsed admin user_roles_upsert_def Let_def issue_def
                  roles_of_def)
qed

lemma updateUserRole_fallback:
  assumes parsed: "updateUserRoleSchema z formData = Inr (target, newRole)"
      and admin: "RoleOf w uid = Some Admin"
  shows "fst (updateUserRole z formData (Some uid) (Some e) None None w) = Inr ()"
    and "roles_of (snd (updateUserRole z formData (Some uid) (Some e) None None w)) target = [newRole]"
  by (simp_all add: updateUserRole_def parsed admin user_roles_upsert_def user_roles_delete_def
                    user_roles_insert_def Let_def issue_def roles_of_def)

section \<open>Adding a version\<close>

lemma current_version_set:
  "\<forall>d \<in> set (map (\<lambda>d. if d_id d = k then d\<lparr>d_current_version := v\<rparr> else d) ds).
     d_id d = k \<longrightarrow> d_current_version d = v"
proof (intro ballI impI)
  fix d
  assume a: "d \<in> set (map (\<lambda>d. if d_id d = k then d\<lparr>d_current_version := v\<rparr> else d) ds)"
    and b: "d_id d = k"
  from a obtain x where x: "d = (if d_id x = k then x\<lparr>d_current_version := v\<rparr> else x)"
    unfolding set_map by (rule imageE)
  show "d_current_version d = v"
    using b unfolding x by (simp split: if_splits)
qed

text \<open>
  What a call of uploadNewVersion that reaches the upload leaves behind, in each of its
  three outcomes.
\<close>

lemma uploadNewVersion_outcome:
  assumes size: "0 < f_size f" "f_size f \<le> 52428800"
      and doc: "documents_single documentId docError w = Some doc"
      and cur: "d_current_version doc = N"
      and path: "path = spec_storage_path (d_project_id doc) documentId (N + 1) (f_name f)"
      and row: "row = \<lparr>v_document_id = documentId, v_version = N + 1,
                       v_storage_path = path, v_file_name = f_name f, v_file_size = f_size f,
                       v_mime_type = mime_or_default (f_type f), v_uploaded_by = uid\<rparr>"
      and res: "uploadNewVersion documentId (Some f) (Some uid) docError uploadError versionError w
                  = (r, w')"
  shows "(issued w' = issued w @ [StorageUpload path f] \<or>
          issued w' = issued w @ [StorageUpload path f, RpcCreateDocumentVersion row]) \<and>
         (\<forall>p. p \<noteq> path \<longrightarrow> storage w' p = storage w p) \<and>
         (r = Inr () \<longrightarrow>
            issued w' = issued w @ [StorageUpload path f, RpcCreateDocumentVersion row] \<and>
            storage w' path = Some f \<and>
            row \<in> set (document_versions w') \<and>
            (\<forall>d \<in> set (documents w'). d_id d = documentId \<longrightarrow> d_current_version d = N + 1))"
proof -
  have nz: "f_size f \<noteq> 0" "\<not> f_size f > 52428800"
    using size by simp_all
  have p: "d_project_id doc @ ''/'' @ documentId @ ''/v'' @ show_nat (d_current_version doc + 1)
             @ ''-'' @ f_name f = path"
    by (simp add: path spec_storage_path_def cur)
  have r: "\<lparr>v_document_id = documentId, v_version = d_current_version doc + 1,
            v_storage_path = path, v_file_name = f_name f, v_file_size = f_size f,
            v_mime_type = mime_or_default (f_type f), v_uploaded_by = uid\<rparr> = row"
    by (simp add: row cur)
  have step: "uploadNewVersion documentId (Some f) (Some uid) docError uploadError versionError w =
     (case storage_upload path f uploadError w of
        (Some e, w1) \<Rightarrow> (Inl (''Upload failed: '' @ e), w1)
      | (None, w1) \<Rightarrow>
         (case create_document_version row versionError w1 of
            (Some e, w2) \<Rightarrow> (Inl (''Version creation failed: '' @ e), w2)
          | (None, w2) \<Rightarrow> (Inr (), w2)))"
    unfolding uploadNewVersion_def
    by (simp only: option.case nz if_False doc Let_def p r)
  have rv: "v_version row = N + 1" "v_document_id row = documentId"
    by (simp_all add: row)
  consider (upload_failed) "uploadError \<noteq> None \<or> path \<in> dom (storage w)"
    | (rpc_failed) "uploadError = None" "path \<notin> dom (storage w)" "versionError \<noteq> None"
    | (succeeded) "uploadError = None" "path \<notin> dom (storage w)" "versionError = None"
    by blast
  then show ?thesis
  proof cases
    case upload_failed
    then have "\<exists>e. storage_upload path f uploadError w =
                     (Some e, issue (StorageUpload path f) w)"
      by (cases uploadError) (simp_all add: storage_upload_def Let_def issue_def)
    then obtain e where
      "storage_upload path f uploadError w = (Some e, issue (StorageUpload path f) w)" ..
    then have "r = Inl (''Upload failed: '' @ e)" "w' = issue (StorageUpload path f) w"
      using res [symmetric] unfolding step by simp_all
    then show ?thesis
      by (simp add: issue_def)
  next
    case rpc_failed
    from rpc_failed obtain e where e: "versionError = Some e"
      by blast
    have u: "storage_upload path f uploadError w =
               (None, (issue (StorageUpload path f) w)\<lparr>storage := (storage w)(path \<mapsto> f)\<rparr>)"
      using rpc_failed by (simp add: storage_upload_def Let_def issue_def)
    have "r = Inl (''Version creation failed: '' @ e)"
         "w' = issue (RpcCreateDocumentVersion row)
                 ((issue (StorageUpload path f) w)\<lparr>storage := (storage w)(path \<mapsto> f)\<rparr>)"
      using res [symmetric] unfolding step u
      by (simp_all add: create_document_version_def Let_def e)
    then show ?thesis
      by (simp add: issue_def)
  next
    case succeeded
    have u: "storage_upload path f uploadError w =
               (None, (issue (StorageUpload path f) w)\<lparr>storage := (storage w)(path \<mapsto> f)\<rparr>)"
      using succeeded by (simp add: storage_upload_def Let_def issue_def)
    have "r = Inr ()"
         "w' = (issue (RpcCreateDocumentVersion row)
                  ((issue (StorageUpload path f) w)\<lparr>storage := (storage w)(path \<mapsto> f)\<rparr>))
               \<lparr>document_versions := document_versions w @ [row],
                 documents :=
                   map (\<lambda>d. if d_id d = v_document_id row
                            then d\<lparr>d_current_version := v_version row\<rparr> else d)
                       (documents w)\<rparr>"
      using res [symmetric] unfolding step u
      by (simp_all add: create_document_version_def Let_def succeeded issue_def)
    then show ?thesis
      using current_version_set [of "v_document_id row" "v_version row" "documents w"]
      by (simp add: issue_def rv del: set_map)
  qed
qed

text \<open>
  Claim C6. For a document whose current version is \<open>N\<close>, uploadNewVersion takes the new
  version to be \<open>N + 1\<close> from the stored row (the caller passes only the document id and
  the file): the one upload it issues goes to the path
  \<^verbatim>\<open>{projectId}/{documentId}/v{N+1}-{fileName}\<close>, no other path of the blob store
  changes, the version it then asks the database to create is \<open>N + 1\<close> at that path, and
  on success the file is stored there.
\<close>

theorem uploadNewVersion_next_version:
  assumes "0 < f_size f" "f_size f \<le> 52428800"
      and "documents_single documentId docError w = Some doc"
      and "d_current_version doc = N"
      and "path = spec_storage_path (d_project_id doc) documentId (N + 1) (f_name f)"
      and "row = \<lparr>v_document_id = documentId, v_version = N + 1,
                  v_storage_path = path, v_file_name = f_name f, v_file_size = f_size f,
                  v_mime_type = mime_or_default (f_type f), v_uploaded_by = uid\<rparr>"
      and "uploadNewVersion documentId (Some f) (Some uid) docError uploadError versionError w
             = (r, w')"
  shows "(issued w' = issued w @ [StorageUpload path f] \<or>
          issued w' = issued w @ [StorageUpload path f, RpcCreateDocumentVersion row]) \<and>
         (\<forall>p. p \<noteq> path \<longrightarrow> storage w' p = storage w p) \<and>
         (r = Inr () \<longrightarrow>
            issued w' = issued w @ [StorageUpload path f, RpcCreateDocumentVersion row] \<and>
            storage w' path = Some f)"
  using uploadNewVersion_outcome [OF assms] by blast

lemma show_nat_2: "show_nat (Suc (Suc 0)) = ''2''"
  by (simp add: show_nat.simps digit_char_def)

lemma documents_single_sample: "documents_single ''d1'' None sample = Some design_doc"
  by (simp add: documents_single_def sample_def design_doc_def)

lemma sample_path_v2: "spec_storage_path ''p1'' ''d1'' (Suc (Suc 0)) ''design.pdf'' = ''p1/d1/v2-design.pdf''"
  by (simp add: spec_storage_path_def show_nat_2)

theorem uploadNewVersion_next_version_witness:
  "0 < f_size design_v2 \<and> f_size design_v2 \<le> 52428800 \<and>
   documents_single ''d1'' None sample = Some design_doc \<and>
   d_current_version design_doc = 1 \<and>
   fst (uploadNewVersion ''d1'' (Some design_v2) (Some ''lead1'') None None None sample) = Inr () \<and>
   issued (snd (uploadNewVersion ''d1'' (Some design_v2) (Some ''lead1'') None None None sample)) =
     [StorageUpload ''p1/d1/v2-design.pdf'' design_v2,
      RpcCreateDocumentVersion
        \<lparr>v_document_id = ''d1'', v_version = 2, v_storage_path = ''p1/d1/v2-design.pdf'',
         v_file_name = ''design.pdf'', v_file_size = 4096, v_mime_type = ''application/pdf'',
         v_uploaded_by = ''lead1''\<rparr>] \<and>
   storage (snd (uploadNewVersion ''d1'' (Some design_v2) (Some ''lead1'') None None None sample))
     ''p1/d1/v2-design.pdf'' = Some design_v2"
proof -
  let ?X = "uploadNewVersion ''d1'' (Some design_v2) (Some ''lead1'') None None None sample"
  let ?row = "\<lparr>v_document_id = ''d1'', v_version = 2, v_storage_path = ''p1/d1/v2-design.pdf'',
         v_file_name = ''design.pdf'', v_file_size = 4096, v_mime_type = ''application/pdf'',
         v_uploaded_by = ''lead1''\<rparr>"
  have s: "0 < f_size design_v2" "f_size design_v2 \<le> 52428800"
    by (simp_all add: design_v2_def)
  have c: "d_current_version design_doc = 1"
    by (simp add: design_doc_def)
  have p: "''p1/d1/v2-design.pdf'' =
             spec_storage_path (d_project_id design_doc) ''d1'' (1 + 1) (f_name design_v2)"
    using sample_path_v2 by (simp add: design_doc_def design_v2_def)
  have r: "?row = \<lparr>v_document_id = ''d1'', v_version = 1 + 1,
                     v_storage_path = ''p1/d1/v2-design.pdf'', v_file_name = f_name design_v2,
                     v_file_size = f_size design_v2,
                     v_mime_type = mime_or_default (f_type design_v2),
                     v_uploaded_by = ''lead1''\<rparr>"
    by (simp add: design_v2_def mime_or_default_def)
  have x: "?X = (fst ?X, snd ?X)"
    by simp
  note T = uploadNewVersion_next_version [OF s documents_single_sample c p r x]
  have free: "''p1/d1/v2-design.pdf'' \<notin> dom (storage sample)"
    by (simp add: sample_def)
  have up: "storage_upload ''p1/d1/v2-design.pdf'' design_v2 None sample =
              (None, (issue (StorageUpload ''p1/d1/v2-design.pdf'' design_v2) sample)
                       \<lparr>storage := (storage sample)(''p1/d1/v2-design.pdf'' \<mapsto> design_v2)\<rparr>)"
    using free by (simp add: storage_upload_def Let_def issue_def)
  have q: "d_project_id design_doc @ ''/'' @ ''d1'' @ ''/v''
             @ show_nat (d_current_version design_doc + 1) @ ''-'' @ f_name design_v2
           = ''p1/d1/v2-design.pdf''"
    by (simp add: design_doc_def design_v2_def show_nat_2)
  have nz: "f_size design_v2 \<noteq> 0" "\<not> f_size design_v2 > 52428800"
    by (simp_all add: design_v2_def)
  have e: "fst ?X = Inr ()"
    unfolding uploadNewVersion_def
    by (simp only: option.case nz if_False documents_single_sample Let_def q up prod.case
                   create_document_version_def fst_conv)
  from T e have "issued (snd ?X) = issued sample @
                   [StorageUpload ''p1/d1/v2-design.pdf'' design_v2, RpcCreateDocumentVersion ?row]"
    and "storage (snd ?X) ''p1/d1/v2-design.pdf'' = Some design_v2"
    by blast+
  moreover have "issued sample = []"
    by (simp add: sample_def)
  ultimately show ?thesis
    using s c e documents_single_sample by simp
qed

text \<open>
  Claim C9. When the blob upload of uploadNewVersion fails for a document at version \<open>N\<close>,
  the call returns an upload error and the database is as before: the document row still
  carries version \<open>N\<close>, no version row is inserted and the database function is never
  called; the only call issued is the upload itself.
\<close>

theorem uploadNewVersion_upload_failure:
  assumes size: "0 < f_size f" "f_size f \<le> 52428800"
      and doc: "documents_single documentId docError w = Some doc"
      and cur: "d_current_version doc = N"
      and fails: "uploadError \<noteq> None \<or>
                  spec_storage_path (d_project_id doc) documentId (N + 1) (f_name f)
                    \<in> dom (storage w)"
  shows "(\<exists>msg. fst (uploadNewVersion documentId (Some f) (Some uid) docError uploadError
                      versionError w) = Inl (''Upload failed: '' @ msg)) \<and>
         stored (snd (uploadNewVersion documentId (Some f) (Some uid) docError uploadError
                      versionError w)) = stored w \<and>
         documents_single documentId docError
           (snd (uploadNewVersion documentId (Some f) (Some uid) docError uploadError versionError w))
           = Some doc \<and>
         document_versions (snd (uploadNewVersion documentId (Some f) (Some uid) docError uploadError
                      versionError w)) = document_versions w \<and>
         issued (snd (uploadNewVersion documentId (Some f) (Some uid) docError uploadError
                      versionError w)) =
           issued w @ [StorageUpload (spec_storage_path (d_project_id doc) documentId (N + 1)
                                        (f_name f)) f]"
proof -
  let ?path = "spec_storage_path (d_project_id doc) documentId (N + 1) (f_name f)"
  have nz: "f_size f \<noteq> 0" "\<not> f_size f > 52428800"
    using size by simp_all
  have p: "d_project_id doc @ ''/'' @ documentId @ ''/v'' @ show_nat (d_current_version doc + 1)
             @ ''-'' @ f_name f = ?path"
    by (simp add: spec_storage_path_def cur)
  have "\<exists>e. storage_upload ?path f uploadError w = (Some e, issue (StorageUpload ?path f) w)"
    using fails by (cases uploadError) (simp_all add: storage_upload_def Let_def issue_def)
  then obtain e where
    u: "storage_upload ?path f uploadError w = (Some e, issue (StorageUpload ?path f) w)" ..
  have "uploadNewVersion documentId (Some f) (Some uid) docError uploadError versionError w =
          (Inl (''Upload failed: '' @ e), issue (StorageUpload ?path f) w)"
    unfolding uploadNewVersion_def
    by (simp only: option.case nz if_False doc Let_def p u prod.case)
  then show ?thesis
    using doc by (simp add: stored_issue documents_single_issue) (simp add: issue_def)
qed

theorem uploadNewVersion_upload_failure_witness:
  "0 < f_size design_v2 \<and> f_size design_v2 \<le> 52428800 \<and>
   documents_single ''d1'' None sample = Some design_doc \<and>
   d_current_version design_doc = 1 \<and>
   (\<exists>msg. fst (uploadNewVersion ''d1'' (Some design_v2) (Some ''lead1'') None
                  (Some ''bucket unavailable'') None sample) = Inl (''Upload failed: '' @ msg)) \<and>
   documents (snd (uploadNewVersion ''d1'' (Some design_v2) (Some ''lead1'') None
                  (Some ''bucket unavailable'') None sample)) = [design_doc] \<and>
   document_versions (snd (uploadNewVersion ''d1'' (Some design_v2) (Some ''lead1'') None
                  (Some ''bucket unavailable'') None sample)) = document_versions sample"
proof -
  let ?X = "uploadNewVersion ''d1'' (Some design_v2) (Some ''lead1'') None
              (Some ''bucket unavailable'') None sample"
  have s: "0 < f_size design_v2" "f_size design_v2 \<le> 52428800"
    by (simp_all add: design_v2_def)
  have c: "d_current_version design_doc = 1"
    by (simp add: design_doc_def)
  have f: "Some ''bucket unavailable'' \<noteq> None \<or>
           spec_storage_path (d_project_id design_doc) ''d1'' (1 + 1) (f_name design_v2)
             \<in> dom (storage sample)"
    by simp
  note T = uploadNewVersion_upload_failure [OF s documents_single_sample c f,
              where uid = "''lead1''" and versionError = None]
  from T have "stored (snd ?X) = stored sample"
    by blast
  then have "documents (stored (snd ?X)) = documents (stored sample)"
    by simp
  then have "documents (snd ?X) = [design_doc]"
    by (simp add: stored_def) (simp add: sample_def)
  then show ?thesis
    using T s c documents_single_sample by blast
qed

section \<open>Creating a document\<close>

lemma uploadDocument_unauthenticated:
  "uploadDocument projectId title formFile None docRes uploadError versionError w
     = (Inl ''Unauthorized'', w)"
  by (simp add: uploadDocument_def)






section \<open>Creating a user\<close>

text \<open>
  Claim C10. When createUser has created the account and the insert of the role row then
  fails, it returns an error and does not undo the account: the new user is among the
  accounts and has no role row.
\<close>

theorem createUser_role_insert_failure:
  assumes parsed: "createUserSchema z formData = Inr parsed"
      and admin: "RoleOf w uid = Some Admin"
      and fresh: "newId \<notin> set (auth_users w)" "roles_of w newId = []"
  shows "createUser z formData (Some uid) (Inr (Some newId)) (Some e) w =
           (Inl (''User created but failed to assign role: '' @ e),
            w\<lparr>auth_users := auth_users w @ [newId],
              issued := issued w @ [AuthCreateUser (pu_email parsed),
                                    UserRolesInsert newId (pu_role parsed)]\<rparr>) \<and>
         newId \<in> set (auth_users (snd (createUser z formData (Some uid) (Inr (Some newId))
                                         (Some e) w))) \<and>
         roles_of (snd (createUser z formData (Some uid) (Inr (Some newId)) (Some e) w)) newId = [] \<and>
         RoleOf (snd (createUser z formData (Some uid) (Inr (Some newId)) (Some e) w)) newId = None"
proof -
  have c: "auth_admin_createUser (pu_email parsed) (Inr (Some newId)) w =
             (Inr (Some newId),
              (issue (AuthCreateUser (pu_email parsed)) w)\<lparr>auth_users := auth_users w @ [newId]\<rparr>)"
    using fresh(1) by (simp add: auth_admin_createUser_def Let_def issue_def)
  have run: "createUser z formData (Some uid) (Inr (Some newId)) (Some e) w =
           (Inl (''User created but failed to assign role: '' @ e),
            w\<lparr>auth_users := auth_users w @ [newId],
              issued := issued w @ [AuthCreateUser (pu_email parsed),
                                    UserRolesInsert newId (pu_role parsed)]\<rparr>)"
    by (simp add: createUser_def parsed admin c user_roles_insert_def Let_def issue_def)
  have none: "filter (\<lambda>r. fst r = newId) (user_roles w) = []"
    using fresh(2) by (simp add: roles_of_def)
  show ?thesis
    unfolding run by (simp add: roles_of_def RoleOf_def none)
qed

lemma createUserSchema_nora:
  "createUserSchema all_pass nora =
     Inr \<lparr>pu_email = ''nora@pixelforge.dev'', pu_password = ''Nora@2024!Secure'',
          pu_full_name = ''Nora New'', pu_role = Developer\<rparr>"
  by (simp add: createUserSchema_def all_pass_def nora_def role_of_string_def
                is_lower_def is_upper_def is_digit_def)

theorem createUser_role_insert_failure_witness:
  "RoleOf sample ''admin1'' = Some Admin \<and> ''u6'' \<notin> set (auth_users sample) \<and>
   roles_of sample ''u6'' = [] \<and>
   fst (createUser all_pass nora (Some ''admin1'') (Inr (Some ''u6'')) (Some ''connection lost'')
          sample) = Inl ''User created but failed to assign role: connection lost'' \<and>
   ''u6'' \<in> set (auth_users (snd (createUser all_pass nora (Some ''admin1'') (Inr (Some ''u6''))
                                    (Some ''connection lost'') sample))) \<and>
   roles_of (snd (createUser all_pass nora (Some ''admin1'') (Inr (Some ''u6''))
                    (Some ''connection lost'') sample)) ''u6'' = []"
proof -
  have a: "''u6'' \<notin> set (auth_users sample)"
    by (simp add: sample_def)
  have b: "roles_of sample ''u6'' = []"
    by (simp add: roles_of_def sample_def)
  note T = createUser_role_insert_failure [OF createUserSchema_nora RoleOf_admin1 a b,
             where e = "''connection lost''"]
  from T have "fst (createUser all_pass nora (Some ''admin1'') (Inr (Some ''u6''))
                      (Some ''connection lost'') sample)
               = Inl (''User created but failed to assign role: '' @ ''connection lost'')"
    by simp
  then have t1: "fst (createUser all_pass nora (Some ''admin1'') (Inr (Some ''u6''))
                        (Some ''connection lost'') sample)
                 = Inl ''User created but failed to assign role: connection lost''"
    by simp
  from T have t2: "''u6'' \<in> set (auth_users (snd (createUser all_pass nora (Some ''admin1'')
                                     (Inr (Some ''u6'')) (Some ''connection lost'') sample)))"
    and t3: "roles_of (snd (createUser all_pass nora (Some ''admin1'') (Inr (Some ''u6''))
                              (Some ''connection lost'') sample)) ''u6'' = []"
    by blast+
  show ?thesis
    using t1 t2 t3 a b RoleOf_admin1 by blast
qed

end
